theory Spec2Isabelle
  imports Main "HOL-Library.AList" "HOL-Library.Char_ord" "HOL-Library.List_Lexorder"
begin

section \<open>The docker log target of promtail (clients/pkg/promtail/targets/docker/target.go)\<close>

text \<open>
  A shallow embedding of \<^verbatim>\<open>target.go\<close>. Go strings are byte strings (\<open>string\<close>),
  \<^verbatim>\<open>int64\<close> values are \<open>int\<close> (the file does no arithmetic on them), Go errors are
  values of the datatype \<open>error\<close>, a \<^verbatim>\<open>nil\<close> error is \<open>None\<close>, and a panic is a
  value of the datatype \<open>panic\<close>. The struct \<^verbatim>\<open>Target\<close> is the record \<open>target\<close>;
  each method takes the record and returns the updated one.
\<close>

subsection \<open>Package strings\<close>

text \<open>\<^verbatim>\<open>strings.Index(s, sep)\<close> for a one-byte separator: the offset of its first
  occurrence, \<open>None\<close> for Go's -1.\<close>

fun Index :: "string \<Rightarrow> char \<Rightarrow> nat option" where
  "Index [] sep = None"
| "Index (c # cs) sep = (if c = sep then Some 0 else map_option Suc (Index cs sep))"

text \<open>\<^verbatim>\<open>strings.SplitN(s, sep, n)\<close> for a one-byte separator and \<open>n \<ge> 0\<close>: at most \<open>n\<close>
  pieces, the last one the unsplit rest.\<close>

fun SplitN :: "string \<Rightarrow> char \<Rightarrow> nat \<Rightarrow> string list" where
  "SplitN s sep 0 = []"
| "SplitN s sep (Suc 0) = [s]"
| "SplitN s sep (Suc (Suc n)) =
     (case Index s sep of
        None \<Rightarrow> [s]
      | Some m \<Rightarrow> take m s # SplitN (drop (Suc m) s) sep (Suc n))"

definition HasPrefix :: "string \<Rightarrow> string \<Rightarrow> bool" where
  "HasPrefix s prefix = (length prefix \<le> length s \<and> take (length prefix) s = prefix)"

text \<open>\<^verbatim>\<open>unicode.IsSpace\<close> on a byte below 0x80: tab, line feed, vertical tab, form feed,
  carriage return and space. The source never calls it; it states what the word
  whitespace covers.\<close>

definition IsSpace :: "char \<Rightarrow> bool" where
  "IsSpace c = (c \<in> set [CHR 0x09, CHR 0x0A, CHR 0x0B, CHR 0x0C, CHR 0x0D, CHR '' ''])"

subsection \<open>Package strconv\<close>

definition digit :: "nat \<Rightarrow> char" where
  "digit d = ''0123456789'' ! d"

function FormatUint :: "nat \<Rightarrow> string" where
  "FormatUint n = (if n < 10 then [digit n] else FormatUint (n div 10) @ [digit (n mod 10)])"
  by pat_completeness auto
termination
  by (relation "measure id") auto

definition FormatInt :: "int \<Rightarrow> string" where
  "FormatInt i = (if i < 0 then CHR ''-'' # FormatUint (nat (- i)) else FormatUint (nat i))"

definition FormatBool :: "bool \<Rightarrow> string" where
  "FormatBool b = (if b then ''true'' else ''false'')"

subsection \<open>Errors and time\<close>

text \<open>The two errors \<^verbatim>\<open>extractTs\<close> builds with \<^verbatim>\<open>fmt.Errorf\<close>, and the errors that reach
  the target from its collaborators (the docker client, the position store,
  \<^verbatim>\<open>time.Parse\<close>), which carry their message.\<close>

datatype error =
    CouldNotFindTimestamp string
  | CouldNotParseTimestamp string error
  | External string

datatype panic = NilPointerDereference

text \<open>The \<^verbatim>\<open>Error()\<close> method: the message, as the two \<^verbatim>\<open>fmt.Errorf\<close> calls format it.\<close>

fun Error :: "error \<Rightarrow> string" where
  "Error (CouldNotFindTimestamp line) =
     ''Could not find timestamp in '' @ [CHR 0x27] @ line @ [CHR 0x27]"
| "Error (CouldNotParseTimestamp tok e) =
     ''Could not parse timestamp from '' @ [CHR 0x27] @ tok @ [CHR 0x27] @ '': '' @ Error e"
| "Error (External msg) = msg"

text \<open>\<^verbatim>\<open>time.Time\<close>: an instant (seconds since the Unix epoch and nanoseconds within the
  second) with the offset of its zone in seconds east of UTC.\<close>

record time =
  unixSec :: int
  nsec :: int
  zoneOffset :: int

definition Unix :: "time \<Rightarrow> int" where
  "Unix t = unixSec t"

subsection \<open>extractTs\<close>

text \<open>
  \<^verbatim>\<open>extractTs(line)\<close> returns \<^verbatim>\<open>(time.Time, string, error)\<close>. It calls
  \<^verbatim>\<open>time.Parse("2006-01-02T15:04:05.999999999Z07:00", pair[0])\<close> and \<^verbatim>\<open>time.Now()\<close>,
  which belong to the Go library: the parser at that layout is the parameter \<open>parse\<close>
  and the clock's reading is the parameter \<open>now\<close>.
\<close>

definition extractTs ::
  "(string \<Rightarrow> error + time) \<Rightarrow> time \<Rightarrow> string \<Rightarrow> time \<times> string \<times> error option" where
  "extractTs parse now line =
     (let pair = SplitN line CHR '' '' 2 in
      if length pair \<noteq> 2 then (now, line, Some (CouldNotFindTimestamp line))
      else
        (case parse (pair ! 0) of
           Inl e \<Rightarrow> (now, line, Some (CouldNotParseTimestamp (pair ! 0) e))
         | Inr ts \<Rightarrow> (ts, pair ! 1, None)))"

subsection \<open>Labels\<close>

text \<open>
  \<^verbatim>\<open>model.LabelSet\<close> is a Go map from label name to label value: here the list of its
  entries, in the order a \<^verbatim>\<open>range\<close> loop visits them; \<^verbatim>\<open>m[k] = v\<close> is \<open>AList.update k v m\<close>.
  \<^verbatim>\<open>labels.Labels\<close> is a slice of name and value pairs.

  \<^verbatim>\<open>labels.Builder\<close> (prometheus/model/labels) with its base \<^verbatim>\<open>nil\<close>, as
  \<^verbatim>\<open>labels.NewBuilder(nil)\<close> makes it: \<^verbatim>\<open>Set\<close> overwrites the value of a name that is
  already in \<^verbatim>\<open>add\<close> and appends the pair otherwise, and treats an empty value as
  \<^verbatim>\<open>Del\<close>; \<^verbatim>\<open>Labels\<close> returns \<^verbatim>\<open>add\<close> sorted by name.
\<close>

type_synonym LabelSet = "(string \<times> string) list"

record Builder =
  del :: "string list"
  add :: "(string \<times> string) list"

definition NewBuilder :: Builder where
  "NewBuilder = \<lparr>del = [], add = []\<rparr>"

primrec setAdd :: "string \<Rightarrow> string \<Rightarrow> (string \<times> string) list \<Rightarrow> (string \<times> string) list" where
  "setAdd n v [] = [(n, v)]"
| "setAdd n v (a # as) = (if fst a = n then (fst a, v) # as else a # setAdd n v as)"

definition Builder_Del :: "Builder \<Rightarrow> string \<Rightarrow> Builder" where
  "Builder_Del b n = b\<lparr>add := filter (\<lambda>a. fst a \<noteq> n) (add b), del := del b @ [n]\<rparr>"

definition Builder_Set :: "Builder \<Rightarrow> string \<Rightarrow> string \<Rightarrow> Builder" where
  "Builder_Set b n v = (if v = [] then Builder_Del b n else b\<lparr>add := setAdd n v (add b)\<rparr>)"

definition Builder_Labels :: "Builder \<Rightarrow> (string \<times> string) list" where
  "Builder_Labels b = sort_key fst (add b)"

subsection \<open>The position store\<close>

text \<open>
  Modelled from the spec: the position store (package \<^verbatim>\<open>positions\<close>: the interface
  \<^verbatim>\<open>Positions\<close> with \<^verbatim>\<open>Get\<close>, \<^verbatim>\<open>Put\<close> and \<^verbatim>\<open>GetString\<close>), which is not under src/. The spec
  gives it as a durable mapping from key to cursor with \<^verbatim>\<open>get(key) \<rightarrow> cursor | error\<close>,
  \<^verbatim>\<open>put(key, cursor)\<close> and \<^verbatim>\<open>getDisplayString(key) \<rightarrow> string\<close>, where a cursor of zero
  stands for nothing stored. A key holds a cursor, or an entry whose lookup fails.
\<close>

datatype stored = Cursor int | Unreadable string

type_synonym Positions = "string \<rightharpoonup> stored"

definition Get :: "Positions \<Rightarrow> string \<Rightarrow> error + int" where
  "Get p key =
     (case p key of
        None \<Rightarrow> Inr 0
      | Some (Cursor pos) \<Rightarrow> Inr pos
      | Some (Unreadable s) \<Rightarrow> Inl (External s))"

definition Put :: "Positions \<Rightarrow> string \<Rightarrow> int \<Rightarrow> Positions" where
  "Put p key pos = p(key \<mapsto> Cursor pos)"

definition GetString :: "Positions \<Rightarrow> string \<Rightarrow> string" where
  "GetString p key =
     (case p key of
        None \<Rightarrow> []
      | Some (Cursor pos) \<Rightarrow> FormatInt pos
      | Some (Unreadable s) \<Rightarrow> s)"

subsection \<open>The Target and its collaborators\<close>

text \<open>\<^verbatim>\<open>relabel.Config\<close> (prometheus) is opaque here: the rule chain is only handed on to
  \<^verbatim>\<open>relabel.Process\<close>.\<close>

typedecl relabel_Config

record ContainerLogsOptions =
  ShowStdout :: bool
  ShowStderr :: bool
  Follow :: bool
  Timestamps :: bool
  Since :: string

text \<open>The stream \<^verbatim>\<open>ContainerLogs\<close> returns, as what \<^verbatim>\<open>stdcopy.StdCopy\<close> and the two
  \<^verbatim>\<open>bufio.Scanner\<close>s make of it before the copy ends: the lines that reach the stdout
  pipe and the lines that reach the stderr pipe.\<close>

record logs =
  stdoutLines :: "string list"
  stderrLines :: "string list"

text \<open>
  What the file calls outside itself:
  \<^item> \<open>time_Parse\<close>: \<^verbatim>\<open>time.Parse\<close> at the layout \<^verbatim>\<open>2006-01-02T15:04:05.999999999Z07:00\<close>;
  \<^item> \<open>time_Now\<close>: \<^verbatim>\<open>time.Now()\<close>;
  \<^item> \<open>relabel_Process\<close>: \<^verbatim>\<open>relabel.Process(labels, cfgs...)\<close>;
  \<^item> \<open>dockerLabelLogStream\<close>: the package constant of that name, declared in another file;
  \<^item> \<open>CursorKey\<close>: \<^verbatim>\<open>positions.CursorKey\<close>;
  \<^item> \<open>ContainerLogs\<close>: \<^verbatim>\<open>client.ContainerLogs(ctx, container, options)\<close>; its first
    argument says whether \<^verbatim>\<open>ctx\<close> is already cancelled.
\<close>

record env =
  time_Parse :: "string \<Rightarrow> error + time"
  time_Now :: time
  relabel_Process :: "(string \<times> string) list \<Rightarrow> relabel_Config list \<Rightarrow> (string \<times> string) list"
  dockerLabelLogStream :: string
  CursorKey :: "string \<Rightarrow> string"
  ContainerLogs :: "bool \<Rightarrow> string \<Rightarrow> ContainerLogsOptions \<Rightarrow> error + logs"

text \<open>\<^verbatim>\<open>api.Entry\<close> with its embedded \<^verbatim>\<open>logproto.Entry\<close>.\<close>

record Entry =
  Labels :: LabelSet
  Timestamp :: time
  Line :: string

text \<open>The two counters of \<^verbatim>\<open>Metrics\<close> that the file increments.\<close>

record Metrics =
  dockerEntries :: nat
  dockerErrors :: nat

text \<open>Where a goroutine of the target stands: started by a \<^verbatim>\<open>go\<close> statement and not yet
  run, running, blocked (on \<^verbatim>\<open><-ctx.Done()\<close> or in \<^verbatim>\<open>wg.Wait()\<close>), or returned.\<close>

datatype goroutine = Spawned | Running | Blocked | Exited

text \<open>
  The struct \<^verbatim>\<open>Target\<close>. \<open>handler\<close> is the sequence of entries sent on
  \<^verbatim>\<open>handler.Chan()\<close>; \<open>cancelled\<close> says whether \<^verbatim>\<open>cancel\<close> has been called, that is
  whether \<^verbatim>\<open>ctx.Done()\<close> is closed; \<open>wg\<close> is the counter of the \<^verbatim>\<open>sync.WaitGroup\<close>;
  \<open>err\<close> is \<open>None\<close> for \<^verbatim>\<open>nil\<close>. The logger and the client are left to \<open>env\<close>. Beside
  the struct's fields the record keeps the goroutines the target has started, by name
  (\<open>processLoop\<close>, \<open>StdCopy\<close>, \<open>stdout\<close>, \<open>stderr\<close>), the stream \<^verbatim>\<open>logs\<close> of
  \<^verbatim>\<open>processLoop\<close> and whether it and the two pipes are closed.
\<close>

record target =
  handler :: "Entry list"
  since :: int
  positions :: Positions
  containerName :: string
  labels :: LabelSet
  relabelConfig :: "relabel_Config list"
  metrics :: Metrics
  cancelled :: bool
  wg :: int
  running :: bool
  err :: "error option"
  goroutines :: "(string \<times> goroutine) list"
  stream :: "logs option"
  logsClosed :: bool
  pipesClosed :: bool

definition NewTarget ::
  "env \<Rightarrow> Metrics \<Rightarrow> Entry list \<Rightarrow> Positions \<Rightarrow> string \<Rightarrow> LabelSet \<Rightarrow> relabel_Config list
     \<Rightarrow> error + target" where
  "NewTarget env metrics0 handler0 position containerName0 labels0 relabelConfig0 =
     (case Get position (CursorKey env containerName0) of
        Inl e \<Rightarrow> Inl e
      | Inr pos \<Rightarrow>
          (let since0 = (if pos \<noteq> 0 then pos else 0) in
           Inr \<lparr>handler = handler0, since = since0, positions = position,
                containerName = containerName0, labels = labels0,
                relabelConfig = relabelConfig0, metrics = metrics0,
                cancelled = False, wg = 0, running = False, err = None,
                goroutines = [(''processLoop'', Spawned)],
                stream = None, logsClosed = False, pipesClosed = False\<rparr>))"

subsection \<open>process: the line processor\<close>

text \<open>Lines 168 to 173: the builder filled from the static labels and then with the
  stream's label, and the labels it hands to \<^verbatim>\<open>relabel.Process\<close>.\<close>

definition process_labels :: "env \<Rightarrow> target \<Rightarrow> string \<Rightarrow> (string \<times> string) list" where
  "process_labels env t logStream =
     (let lb = fold (\<lambda>kv lb. Builder_Set lb (fst kv) (snd kv)) (labels t) NewBuilder;
          lb = Builder_Set lb (dockerLabelLogStream env) logStream
      in Builder_Labels lb)"

text \<open>Lines 175 to 181: the labels that are kept for the entry.\<close>

definition process_filtered :: "(string \<times> string) list \<Rightarrow> LabelSet" where
  "process_filtered processed =
     fold (\<lambda>lbl filtered.
             if HasPrefix (fst lbl) ''__'' then filtered
             else AList.update (fst lbl) (snd lbl) filtered)
       processed []"

text \<open>The body of the scanning loop for one line of the pipe (lines 159 to 191).\<close>

definition process_line :: "env \<Rightarrow> string \<Rightarrow> string \<Rightarrow> target \<Rightarrow> target" where
  "process_line env logStream text0 t =
     (case extractTs (time_Parse env) (time_Now env) text0 of
        (ts, line, Some e) \<Rightarrow>
          t\<lparr>metrics := (metrics t)\<lparr>dockerErrors := dockerErrors (metrics t) + 1\<rparr>\<rparr>
      | (ts, line, None) \<Rightarrow>
          (let processed = relabel_Process env (process_labels env t logStream) (relabelConfig t);
               filtered = process_filtered processed
           in t\<lparr>handler := handler t @ [\<lparr>Labels = filtered, Timestamp = ts, Line = line\<rparr>],
                metrics := (metrics t)\<lparr>dockerEntries := dockerEntries (metrics t) + 1\<rparr>,
                positions := Put (positions t) (CursorKey env (containerName t)) (Unix ts)\<rparr>))"

text \<open>The scanning loop over the lines the reader yields until end of stream.\<close>

definition process_scan :: "env \<Rightarrow> string \<Rightarrow> string list \<Rightarrow> target \<Rightarrow> target" where
  "process_scan env logStream r t = fold (process_line env logStream) r t"

text \<open>\<^verbatim>\<open>process(r, logStream)\<close>: the loop, then the deferred \<^verbatim>\<open>wg.Done()\<close>; the goroutine
  returns.\<close>

definition process :: "env \<Rightarrow> string list \<Rightarrow> string \<Rightarrow> target \<Rightarrow> target" where
  "process env r logStream t =
     (let t1 = process_scan env logStream r t in
      t1\<lparr>wg := wg t1 - 1, goroutines := AList.update logStream Exited (goroutines t1)\<rparr>)"

subsection \<open>processLoop and Stop\<close>

text \<open>
  \<^verbatim>\<open>processLoop\<close> from its start to where it returns (the request failed, lines 100 to
  104) or blocks on \<^verbatim>\<open><-ctx.Done()\<close> (line 132), having started the copying goroutine
  and the two processors.
\<close>

definition processLoop :: "env \<Rightarrow> target \<Rightarrow> target" where
  "processLoop env t0 =
     (let t1 = t0\<lparr>wg := wg t0 + 1\<rparr>;
          t2 = t1\<lparr>running := True\<rparr>;
          opts = \<lparr>ShowStdout = True, ShowStderr = True, Follow = True, Timestamps = True,
                  Since = FormatInt (since t2)\<rparr>
      in case ContainerLogs env (cancelled t2) (containerName t2) opts of
           Inl e \<Rightarrow>
             t2\<lparr>err := Some e, wg := wg t2 - 1,
                goroutines := AList.update ''processLoop'' Exited (goroutines t2)\<rparr>
         | Inr lg \<Rightarrow>
             (let t3 = t2\<lparr>stream := Some lg\<rparr>;
                  t4 = t3\<lparr>wg := wg t3 + 1,
                          goroutines := AList.update ''StdCopy'' Running (goroutines t3)\<rparr>;
                  t5 = t4\<lparr>wg := wg t4 + 2\<rparr>;
                  t6 = t5\<lparr>goroutines := AList.update ''stdout'' Running (goroutines t5)\<rparr>;
                  t7 = t6\<lparr>goroutines := AList.update ''stderr'' Running (goroutines t6)\<rparr>
              in t7\<lparr>goroutines := AList.update ''processLoop'' Blocked (goroutines t7)\<rparr>))"

text \<open>\<^verbatim>\<open>processLoop\<close> from line 132 on, once \<^verbatim>\<open>ctx.Done()\<close> is closed: lines 133 to 135 and
  the deferred \<^verbatim>\<open>wg.Done()\<close>.\<close>

definition processLoop_cancelled :: "target \<Rightarrow> target" where
  "processLoop_cancelled t =
     (let t1 = t\<lparr>running := False\<rparr>;
          t2 = t1\<lparr>logsClosed := True\<rparr>
      in t2\<lparr>wg := wg t2 - 1,
            goroutines := AList.update ''processLoop'' Exited (goroutines t2)\<rparr>)"

text \<open>The copying goroutine once \<^verbatim>\<open>stdcopy.StdCopy\<close> has returned: its deferred function
  (lines 111 to 116) up to the \<^verbatim>\<open>wg.Wait()\<close> inside its call of \<^verbatim>\<open>t.Stop()\<close>.\<close>

definition StdCopy_deferred :: "target \<Rightarrow> target" where
  "StdCopy_deferred t =
     (let t1 = t\<lparr>wg := wg t - 1\<rparr>;
          t2 = t1\<lparr>pipesClosed := True\<rparr>;
          t3 = t2\<lparr>cancelled := True\<rparr>
      in t3\<lparr>goroutines := AList.update ''StdCopy'' Blocked (goroutines t3)\<rparr>)"

text \<open>
  What the target's goroutines do once \<^verbatim>\<open>ctx\<close> is cancelled, each one that has started
  running to its return: the loop leaves \<^verbatim>\<open><-ctx.Done()\<close> and closes the stream, the copy
  ends and closes the pipes, the two processors read their lines to the end of their
  pipe, and the copying goroutine leaves its own \<^verbatim>\<open>wg.Wait()\<close> when the counter is zero.
  A goroutine that a \<^verbatim>\<open>go\<close> statement has started and that has not run yet has not
  reached its \<^verbatim>\<open>wg.Add\<close>: nothing waits for it.
\<close>

definition teardown :: "env \<Rightarrow> target \<Rightarrow> target" where
  "teardown env t0 =
     (let t1 = (if cancelled t0 \<and> map_of (goroutines t0) ''processLoop'' = Some Blocked
                then processLoop_cancelled t0 else t0);
          t2 = (if map_of (goroutines t1) ''StdCopy'' = Some Running
                then StdCopy_deferred t1 else t1);
          t3 = (case stream t2 of
                  None \<Rightarrow> t2
                | Some lg \<Rightarrow>
                    (if map_of (goroutines t2) ''stdout'' = Some Running
                     then process env (stdoutLines lg) ''stdout'' t2 else t2));
          t4 = (case stream t3 of
                  None \<Rightarrow> t3
                | Some lg \<Rightarrow>
                    (if map_of (goroutines t3) ''stderr'' = Some Running
                     then process env (stderrLines lg) ''stderr'' t3 else t3))
      in if map_of (goroutines t4) ''StdCopy'' = Some Blocked \<and> wg t4 = 0
         then t4\<lparr>goroutines := AList.update ''StdCopy'' Exited (goroutines t4)\<rparr> else t4)"

text \<open>\<^verbatim>\<open>Stop\<close>: \<^verbatim>\<open>t.cancel()\<close>, then \<^verbatim>\<open>t.wg.Wait()\<close>, which returns when the counter is zero
  and blocks for ever otherwise (\<open>None\<close>).\<close>

definition Stop :: "env \<Rightarrow> target \<Rightarrow> target option" where
  "Stop env t =
     (let t1 = t\<lparr>cancelled := True\<rparr>;
          t2 = teardown env t1
      in if wg t2 = 0 then Some t2 else None)"

definition Ready :: "target \<Rightarrow> bool" where
  "Ready t = running t"

text \<open>\<^verbatim>\<open>Details\<close>: the map literal's values are evaluated in order; \<^verbatim>\<open>t.err.Error()\<close> on
  a \<^verbatim>\<open>nil\<close> error is a nil pointer dereference, a run-time panic.\<close>

definition Details :: "env \<Rightarrow> target \<Rightarrow> panic + (string \<times> string) list" where
  "Details env t =
     (case err t of
        None \<Rightarrow> Inl NilPointerDereference
      | Some e \<Rightarrow>
          Inr [(''id'', containerName t),
               (''error'', Error e),
               (''position'', GetString (positions t) (CursorKey env (containerName t))),
               (''running'', FormatBool (running t))])"

subsection \<open>A parser for the timestamp layout\<close>

text \<open>
  An instance for the parameter \<open>time_Parse\<close>, used where a statement is evaluated at
  written-out lines. \<^verbatim>\<open>time.Parse\<close> is the Go library's and not this repository's; this
  is a parser for the layout \<^verbatim>\<open>2006-01-02T15:04:05.999999999Z07:00\<close> as the spec describes
  it (RFC 3339 with up to nine fractional digits and a numeric zone offset or \<^verbatim>\<open>Z\<close>):
  four-digit year, two-digit month, day, hour, minute and second, the ranges checked, the
  day checked against the month's length.
\<close>

definition isDigit :: "char \<Rightarrow> bool" where
  "isDigit c = (c \<in> set ''0123456789'')"

definition digitVal :: "char \<Rightarrow> nat" where
  "digitVal c = of_char c - 48"

definition number :: "nat \<Rightarrow> string \<Rightarrow> (nat \<times> string) option" where
  "number k s =
     (if 0 < k \<and> k \<le> length s \<and> list_all isDigit (take k s)
      then Some (foldl (\<lambda>a c. 10 * a + digitVal c) 0 (take k s), drop k s)
      else None)"

definition literal :: "char \<Rightarrow> string \<Rightarrow> string option" where
  "literal c s = (case s of [] \<Rightarrow> None | x # r \<Rightarrow> if x = c then Some r else None)"

definition fraction :: "string \<Rightarrow> (int \<times> string) option" where
  "fraction s =
     (case s of
        x # d # r \<Rightarrow>
          if x = CHR ''.'' \<and> isDigit d
          then (let ds = takeWhile isDigit (d # r) in
                if length ds \<le> 9
                then Some (int (foldl (\<lambda>a c. 10 * a + digitVal c) 0 ds) * 10 ^ (9 - length ds),
                           dropWhile isDigit (d # r))
                else None)
          else Some (0, s)
      | _ \<Rightarrow> Some (0, s))"

definition zone :: "string \<Rightarrow> (int \<times> string) option" where
  "zone s =
     (case s of
        [] \<Rightarrow> None
      | x # r \<Rightarrow>
          if x = CHR ''Z'' then Some (0, r)
          else if x = CHR ''+'' \<or> x = CHR ''-'' then
            Option.bind (number 2 r) (\<lambda>(hh, r1).
            Option.bind (literal CHR '':'' r1) (\<lambda>r2.
            Option.bind (number 2 r2) (\<lambda>(mm, r3).
              Some ((if x = CHR ''-'' then - 1 else 1) * (int hh * 3600 + int mm * 60), r3))))
          else None)"

definition isLeap :: "nat \<Rightarrow> bool" where
  "isLeap y = (y mod 4 = 0 \<and> (y mod 100 \<noteq> 0 \<or> y mod 400 = 0))"

definition daysIn :: "nat \<Rightarrow> nat \<Rightarrow> nat" where
  "daysIn m y =
     (if m = 2 then (if isLeap y then 29 else 28)
      else if m \<in> set [4, 6, 9, 11] then 30 else 31)"

text \<open>Days from 1970-01-01 to the given day of the proleptic Gregorian calendar.\<close>

definition daysFromCivil :: "int \<Rightarrow> int \<Rightarrow> int \<Rightarrow> int" where
  "daysFromCivil y m d =
     (let y1 = (if m \<le> 2 then y - 1 else y);
          era = y1 div 400;
          yoe = y1 - era * 400;
          doy = (153 * (if 2 < m then m - 3 else m + 9) + 2) div 5 + d - 1;
          doe = yoe * 365 + yoe div 4 - yoe div 100 + doy
      in era * 146097 + doe - 719468)"

definition parseLayout :: "string \<Rightarrow> error + time" where
  "parseLayout s =
     (case
        Option.bind (number 4 s) (\<lambda>(year, s1).
        Option.bind (literal CHR ''-'' s1) (\<lambda>s2.
        Option.bind (number 2 s2) (\<lambda>(month, s3).
        Option.bind (literal CHR ''-'' s3) (\<lambda>s4.
        Option.bind (number 2 s4) (\<lambda>(day, s5).
        Option.bind (literal CHR ''T'' s5) (\<lambda>s6.
        Option.bind (number 2 s6) (\<lambda>(hour, s7).
        Option.bind (literal CHR '':'' s7) (\<lambda>s8.
        Option.bind (number 2 s8) (\<lambda>(minute, s9).
        Option.bind (literal CHR '':'' s9) (\<lambda>s10.
        Option.bind (number 2 s10) (\<lambda>(sec, s11).
        Option.bind (fraction s11) (\<lambda>(ns, s12).
        Option.bind (zone s12) (\<lambda>(off, s13).
          if s13 = [] \<and> 1 \<le> month \<and> month \<le> 12 \<and> 1 \<le> day \<and> day \<le> daysIn month year
             \<and> hour < 24 \<and> minute < 60 \<and> sec < 60
          then Some \<lparr>unixSec = daysFromCivil (int year) (int month) (int day) * 86400
                               + int hour * 3600 + int minute * 60 + int sec - off,
                     nsec = ns, zoneOffset = off\<rparr>
          else None)))))))))))))
      of None \<Rightarrow> Inl (External (''parsing time '' @ s))
       | Some t \<Rightarrow> Inr t)"

subsection \<open>Notions the statements use\<close>

text \<open>A malformed line: it has no space, or the text before its first space is not a
  timestamp the parser accepts.\<close>

definition malformed :: "env \<Rightarrow> string \<Rightarrow> bool" where
  "malformed env line =
     (CHR '' '' \<notin> set line \<or> isl (time_Parse env (takeWhile (\<lambda>c. c \<noteq> CHR '' '') line)))"

text \<open>A parser that is given \<open>s\<close> and leaves \<open>r\<close> has read the text in front of \<open>r\<close>;
  \<open>consumes s r\<close> says that this text holds no space.\<close>

definition consumes :: "string \<Rightarrow> string \<Rightarrow> bool" where
  "consumes s r = (\<exists>p. s = p @ r \<and> CHR '' '' \<notin> set p)"

text \<open>The entries one pass of the scanning loop sends for a line: none when
  \<^verbatim>\<open>extractTs\<close> returns an error, one otherwise.\<close>

definition line_entries :: "env \<Rightarrow> target \<Rightarrow> string \<Rightarrow> string \<Rightarrow> Entry list" where
  "line_entries env t logStream text0 =
     (case extractTs (time_Parse env) (time_Now env) text0 of
        (ts, line, Some e) \<Rightarrow> []
      | (ts, line, None) \<Rightarrow>
          [\<lparr>Labels = process_filtered
                       (relabel_Process env (process_labels env t logStream) (relabelConfig t)),
            Timestamp = ts, Line = line\<rparr>])"

text \<open>Inputs for the statements that are evaluated: a clock reading, and collaborators
  with the layout parser, a relabel engine with an empty rule chain's behaviour (the
  labels come back as they are), and a docker client that knows no container.\<close>

definition epoch :: time where
  "epoch = \<lparr>unixSec = 0, nsec = 0, zoneOffset = 0\<rparr>"

definition exampleEnv :: env where
  "exampleEnv =
     \<lparr>time_Parse = parseLayout, time_Now = epoch,
      relabel_Process = (\<lambda>lbls cfgs. lbls),
      dockerLabelLogStream = ''__meta_docker_log_stream'',
      CursorKey = (\<lambda>key. ''cursor-'' @ key),
      ContainerLogs = (\<lambda>ctxDone name opts. Inl (External ''no such container''))\<rparr>"

definition exampleTarget :: target where
  "exampleTarget =
     \<lparr>handler = [], since = 0, positions = Map.empty, containerName = ''flog'',
      labels = [(''job'', ''docker''), (''__address__'', ''unix:///var/run/docker.sock'')],
      relabelConfig = [], metrics = \<lparr>dockerEntries = 0, dockerErrors = 0\<rparr>,
      cancelled = False, wg = 0, running = False, err = None,
      goroutines = [(''processLoop'', Spawned)],
      stream = None, logsClosed = False, pipesClosed = False\<rparr>"

section \<open>Properties\<close>

subsection \<open>Splitting at the first space\<close>


lemma Index_append: "c \<notin> set tok \<Longrightarrow> Index (tok @ c # rest) c = Some (length tok)"
  by (induction tok) auto


lemma SplitN_two_sep: "c \<notin> set tok \<Longrightarrow> SplitN (tok @ c # rest) c 2 = [tok, rest]"
  by (simp add: numeral_2_eq_2 Index_append)


lemma extractTs_space:
  "CHR '' '' \<notin> set tok \<Longrightarrow>
     extractTs parse now (tok @ CHR '' '' # rest) =
       (case parse tok of
          Inl e \<Rightarrow> (now, tok @ CHR '' '' # rest, Some (CouldNotParseTimestamp tok e))
        | Inr ts \<Rightarrow> (ts, rest, None))"
  by (simp add: extractTs_def SplitN_two_sep Let_def split: sum.split)






lemma no_whitespace_malformed: "\<forall>c\<in>set line. \<not> IsSpace c \<Longrightarrow> malformed env line"
  by (auto simp: malformed_def IsSpace_def)


subsection \<open>One pass and the whole loop of the line processor\<close>


lemma process_line_entry:
  "extractTs (time_Parse env) (time_Now env) line = (ts, body, None) \<Longrightarrow>
     process_line env logStream line t =
       t\<lparr>handler := handler t @
            [\<lparr>Labels = process_filtered
                         (relabel_Process env (process_labels env t logStream) (relabelConfig t)),
              Timestamp = ts, Line = body\<rparr>],
         metrics := (metrics t)\<lparr>dockerEntries := dockerEntries (metrics t) + 1\<rparr>,
         positions := Put (positions t) (CursorKey env (containerName t)) (Unix ts)\<rparr>"
  by (simp add: process_line_def Let_def)

lemma process_line_frame:
  "labels (process_line env logStream line t) = labels t"
  "relabelConfig (process_line env logStream line t) = relabelConfig t"
  "containerName (process_line env logStream line t) = containerName t"
  "wg (process_line env logStream line t) = wg t"
  "running (process_line env logStream line t) = running t"
  "err (process_line env logStream line t) = err t"
  "goroutines (process_line env logStream line t) = goroutines t"
  "cancelled (process_line env logStream line t) = cancelled t"
  by (simp_all add: process_line_def Let_def split: prod.split option.split)

lemma process_line_handler:
  "handler (process_line env logStream line t) = handler t @ line_entries env t logStream line"
  by (simp add: process_line_def line_entries_def Let_def split: prod.split option.split)

lemma line_entries_frame:
  "labels t' = labels t \<Longrightarrow> relabelConfig t' = relabelConfig t \<Longrightarrow>
     line_entries env t' logStream line = line_entries env t logStream line"
  by (simp add: line_entries_def process_labels_def split: prod.split option.split)

lemma process_scan_frame:
  "labels (process_scan env logStream r t) = labels t \<and>
   relabelConfig (process_scan env logStream r t) = relabelConfig t \<and>
   containerName (process_scan env logStream r t) = containerName t \<and>
   wg (process_scan env logStream r t) = wg t \<and>
   running (process_scan env logStream r t) = running t \<and>
   err (process_scan env logStream r t) = err t \<and>
   goroutines (process_scan env logStream r t) = goroutines t \<and>
   cancelled (process_scan env logStream r t) = cancelled t"
  unfolding process_scan_def
  by (induction r arbitrary: t) (simp_all add: process_line_frame)

lemma process_scan_handler:
  "handler (process_scan env logStream r t) =
     handler t @ concat (map (line_entries env t logStream) r)"
  unfolding process_scan_def
proof (induction r arbitrary: t)
  case Nil
  show ?case by simp
next
  case (Cons l r)
  let ?t1 = "process_line env logStream l t"
  have same: "line_entries env ?t1 logStream = line_entries env t logStream"
    by (rule ext, rule line_entries_frame) (rule process_line_frame)+
  have "handler (fold (process_line env logStream) (l # r) t) =
          handler (fold (process_line env logStream) r ?t1)"
    by simp
  also have "\<dots> = handler ?t1 @ concat (map (line_entries env ?t1 logStream) r)"
    by (rule Cons.IH)
  also have "\<dots> = handler ?t1 @ concat (map (line_entries env t logStream) r)"
    by (simp only: same)
  also have "\<dots> = handler t @ concat (map (line_entries env t logStream) (l # r))"
    by (simp only: process_line_handler append_assoc list.map concat.simps)
  finally show ?case .
qed











subsection \<open>The label pipeline\<close>

lemma filtered_fold_names:
  "\<forall>l\<in>set acc. \<not> HasPrefix (fst l) p \<Longrightarrow>
     \<forall>l\<in>set (fold (\<lambda>lbl filtered.
                        if HasPrefix (fst lbl) p then filtered
                        else AList.update (fst lbl) (snd lbl) filtered) xs acc).
        \<not> HasPrefix (fst l) p"
proof (induction xs arbitrary: acc)
  case Nil
  then show ?case by simp
next
  case (Cons x xs)
  show ?case
  proof (cases "HasPrefix (fst x) p")
    case True
    from Cons.IH [OF Cons.prems] True show ?thesis by simp
  next
    case False
    have keys: "fst ` set (AList.update (fst x) (snd x) acc) = {fst x} \<union> fst ` set acc"
      by (rule dom_update)
    have "\<forall>l\<in>set (AList.update (fst x) (snd x) acc). \<not> HasPrefix (fst l) p"
    proof
      fix l
      assume "l \<in> set (AList.update (fst x) (snd x) acc)"
      then have "fst l \<in> fst ` set (AList.update (fst x) (snd x) acc)"
        by (rule imageI)
      then have "fst l = fst x \<or> fst l \<in> fst ` set acc"
        unfolding keys by blast
      then show "\<not> HasPrefix (fst l) p"
        using False Cons.prems by auto
    qed
    from Cons.IH [OF this] False show ?thesis by simp
  qed
qed

lemma process_filtered_names:
  "\<forall>l\<in>set (process_filtered processed). \<not> HasPrefix (fst l) ''__''"
  unfolding process_filtered_def by (rule filtered_fold_names) simp

lemma line_entries_labels:
  "e \<in> set (line_entries env t logStream line) \<Longrightarrow>
     Labels e = process_filtered
                  (relabel_Process env (process_labels env t logStream) (relabelConfig t))"
  by (auto simp: line_entries_def split: prod.splits option.splits)

lemma setAdd_member: "(n, v) \<in> set (setAdd n v xs)"
  by (induction xs) auto

lemma setAdd_names: "fst ` set (setAdd n v xs) = insert n (fst ` set xs)"
  by (induction xs) auto

lemma setAdd_distinct: "distinct (map fst xs) \<Longrightarrow> distinct (map fst (setAdd n v xs))"
proof (induction xs)
  case Nil
  show ?case by simp
next
  case (Cons a xs)
  then show ?case
    using setAdd_names [of n v xs] by (auto simp: image_iff)
qed

lemma Builder_Set_distinct:
  "distinct (map fst (add b)) \<Longrightarrow> distinct (map fst (add (Builder_Set b n v)))"
  by (simp add: Builder_Set_def Builder_Del_def setAdd_distinct distinct_map_filter)

lemma fold_Builder_Set_distinct:
  "distinct (map fst (add b)) \<Longrightarrow>
     distinct (map fst (add (fold (\<lambda>kv lb. Builder_Set lb (fst kv) (snd kv)) kvs b)))"
  by (induction kvs arbitrary: b) (simp_all add: Builder_Set_distinct)

lemma process_labels_distinct: "distinct (map fst (process_labels env t logStream))"
proof -
  let ?b = "fold (\<lambda>kv lb. Builder_Set lb (fst kv) (snd kv)) (labels t) NewBuilder"
  have "distinct (map fst (add ?b))"
    by (rule fold_Builder_Set_distinct) (simp add: NewBuilder_def)
  then have "distinct (map fst (add (Builder_Set ?b (dockerLabelLogStream env) logStream)))"
    by (rule Builder_Set_distinct)
  then have "distinct (map fst (sort_key fst (add (Builder_Set ?b (dockerLabelLogStream env) logStream))))"
    by (simp add: distinct_map)
  then show ?thesis
    by (simp add: process_labels_def Builder_Labels_def Let_def)
qed

lemma process_labels_member:
  "logStream \<noteq> [] \<Longrightarrow> (dockerLabelLogStream env, logStream) \<in> set (process_labels env t logStream)"
  by (simp add: process_labels_def Builder_Labels_def Builder_Set_def Let_def setAdd_member)

subsection \<open>Evaluation\<close>

lemmas parse_defs = parseLayout_def number_def literal_def fraction_def zone_def isDigit_def
  digitVal_def daysIn_def isLeap_def daysFromCivil_def

lemmas eval_defs = process_def process_scan_def process_line_def process_labels_def
  process_filtered_def extractTs_def Builder_Set_def Builder_Del_def Builder_Labels_def
  NewBuilder_def HasPrefix_def Put_def Get_def Unix_def numeral_2_eq_2 Let_def

subsection \<open>Stopping a target that is streaming\<close>

text \<open>A target whose request succeeded is ready while \<^verbatim>\<open>processLoop\<close> waits for
  \<^verbatim>\<open>ctx.Done()\<close>; \<^verbatim>\<open>Stop\<close> then returns with the flag false, the counter at zero and
  the four goroutines returned.\<close>

lemma process_line_stream: "stream (process_line env logStream line t) = stream t"
  by (simp add: process_line_def Let_def split: prod.split option.split)

lemma process_scan_stream: "stream (process_scan env logStream r t) = stream t"
  unfolding process_scan_def
  by (induction r arbitrary: t) (simp_all add: process_line_stream)

lemma process_fields:
  "running (process env r logStream t) = running t"
  "err (process env r logStream t) = err t"
  "cancelled (process env r logStream t) = cancelled t"
  "stream (process env r logStream t) = stream t"
  "wg (process env r logStream t) = wg t - 1"
  "goroutines (process env r logStream t) = AList.update logStream Exited (goroutines t)"
  using process_scan_frame [of env logStream r t]
  by (simp_all add: process_def Let_def process_scan_stream)

lemma processLoop_cancelled_fields:
  "running (processLoop_cancelled t) = False"
  "err (processLoop_cancelled t) = err t"
  "cancelled (processLoop_cancelled t) = cancelled t"
  "stream (processLoop_cancelled t) = stream t"
  "wg (processLoop_cancelled t) = wg t - 1"
  "goroutines (processLoop_cancelled t) = AList.update ''processLoop'' Exited (goroutines t)"
  by (simp_all add: processLoop_cancelled_def Let_def)

lemma StdCopy_deferred_fields:
  "running (StdCopy_deferred t) = running t"
  "err (StdCopy_deferred t) = err t"
  "cancelled (StdCopy_deferred t) = True"
  "stream (StdCopy_deferred t) = stream t"
  "wg (StdCopy_deferred t) = wg t - 1"
  "goroutines (StdCopy_deferred t) = AList.update ''StdCopy'' Blocked (goroutines t)"
  by (simp_all add: StdCopy_deferred_def Let_def)

lemma Stop_while_streaming:
  assumes "ContainerLogs env False (containerName t)
             \<lparr>ShowStdout = True, ShowStderr = True, Follow = True, Timestamps = True,
              Since = FormatInt (since t)\<rparr> = Inr lg"
    and "wg t = 0" and "\<not> cancelled t" and "goroutines t = [(''processLoop'', Spawned)]"
  shows "Ready (processLoop env t) \<and>
         (\<exists>t'. Stop env (processLoop env t) = Some t' \<and> \<not> Ready t' \<and> wg t' = 0 \<and>
                err t' = err t \<and>
                goroutines t' = [(''processLoop'', Exited), (''StdCopy'', Exited),
                                 (''stdout'', Exited), (''stderr'', Exited)])"
proof -
  let ?t = "processLoop env t"
  have loop: "?t = t\<lparr>wg := 4, running := True, stream := Some lg,
                    goroutines := [(''processLoop'', Blocked), (''StdCopy'', Running),
                                   (''stdout'', Running), (''stderr'', Running)]\<rparr>"
    using assms by (simp add: processLoop_def Let_def)
  let ?c = "?t\<lparr>cancelled := True\<rparr>"
  let ?t1 = "processLoop_cancelled ?c"
  let ?t2 = "StdCopy_deferred ?t1"
  let ?t3 = "process env (stdoutLines lg) ''stdout'' ?t2"
  let ?t4 = "process env (stderrLines lg) ''stderr'' ?t3"
  let ?t5 = "?t4\<lparr>goroutines := AList.update ''StdCopy'' Exited (goroutines ?t4)\<rparr>"
  have g4: "goroutines ?t4 = [(''processLoop'', Exited), (''StdCopy'', Blocked),
                              (''stdout'', Exited), (''stderr'', Exited)]"
    and w4: "wg ?t4 = 0" and r4: "running ?t4 = False" and e4: "err ?t4 = err t"
    by (simp_all add: process_fields StdCopy_deferred_fields processLoop_cancelled_fields loop)
  have g3: "goroutines ?t3 = [(''processLoop'', Exited), (''StdCopy'', Blocked),
                              (''stdout'', Exited), (''stderr'', Running)]"
    and s3: "stream ?t3 = Some lg"
    by (simp_all add: process_fields StdCopy_deferred_fields processLoop_cancelled_fields loop)
  have g2: "goroutines ?t2 = [(''processLoop'', Exited), (''StdCopy'', Blocked),
                              (''stdout'', Running), (''stderr'', Running)]"
    and s2: "stream ?t2 = Some lg"
    by (simp_all add: StdCopy_deferred_fields processLoop_cancelled_fields loop)
  have g1: "goroutines ?t1 = [(''processLoop'', Exited), (''StdCopy'', Running),
                              (''stdout'', Running), (''stderr'', Running)]"
    by (simp add: processLoop_cancelled_fields loop)
  have g0: "goroutines ?c = [(''processLoop'', Blocked), (''StdCopy'', Running),
                              (''stdout'', Running), (''stderr'', Running)]"
    and c0: "cancelled ?c"
    by (simp_all add: loop)
  have "teardown env ?c = ?t5"
    unfolding teardown_def Let_def
    by (simp only: g0 c0 g1 g2 s2 g3 s3 g4 w4 map_of.simps fst_conv snd_conv
          simp_thms if_True if_False option.case list.inject char.inject
          goroutine.distinct option.inject fun_upd_apply refl)
  then have stop: "Stop env ?t = Some ?t5"
    by (simp add: Stop_def Let_def w4)
  have "Ready ?t"
    by (simp add: loop Ready_def)
  moreover have "\<not> Ready ?t5" "wg ?t5 = 0" "err ?t5 = err t"
    "goroutines ?t5 = [(''processLoop'', Exited), (''StdCopy'', Exited),
                       (''stdout'', Exited), (''stderr'', Exited)]"
    by (simp_all add: Ready_def r4 w4 e4 g4)
  ultimately show ?thesis
    using stop by blast
qed

text \<open>\<^verbatim>\<open>processLoop\<close> calls \<^verbatim>\<open>wg.Add(1)\<close> itself (line 87), after the \<^verbatim>\<open>go\<close> statement of
  \<^verbatim>\<open>NewTarget\<close>: a \<^verbatim>\<open>Stop\<close> that runs before the goroutine does finds the counter at
  zero and returns at once, the goroutine still to run.\<close>

lemma Stop_before_processLoop_runs:
  assumes "wg t = 0" and "goroutines t = [(''processLoop'', Spawned)]"
  shows "Stop env t = Some (t\<lparr>cancelled := True\<rparr>)"
proof (cases "stream t")
  case None
  with assms show ?thesis
    by (simp add: Stop_def teardown_def)
next
  case (Some lg)
  with assms show ?thesis
    by (simp add: Stop_def teardown_def)
qed

subsection \<open>The layout parser accepts no space\<close>

text \<open>Every piece of the layout is digits or one of the characters \<^verbatim>\<open>-\<close>, \<^verbatim>\<open>T\<close>, \<^verbatim>\<open>:\<close>, \<^verbatim>\<open>.\<close>,
  \<^verbatim>\<open>Z\<close> and \<^verbatim>\<open>+\<close>, so a text the parser accepts holds no space, and a line that starts with
  such a text and a space is split right behind it.\<close>

lemma consumes_trans: "consumes s r \<Longrightarrow> consumes r q \<Longrightarrow> consumes s q"
  unfolding consumes_def by (metis Un_iff append.assoc set_append)

lemma consumes_Nil: "consumes s [] \<Longrightarrow> CHR '' '' \<notin> set s"
  by (auto simp: consumes_def)

lemma isDigit_not_space: "isDigit c \<Longrightarrow> c \<noteq> CHR '' ''"
  by (auto simp: isDigit_def)

lemma number_consumes: "number k s = Some (n, r) \<Longrightarrow> consumes s r"
proof -
  assume a: "number k s = Some (n, r)"
  have c: "0 < k \<and> k \<le> length s \<and> list_all isDigit (take k s)"
    using a by (rule_tac ccontr) (simp add: number_def)
  with a have r: "r = drop k s" and d: "list_all isDigit (take k s)"
    by (simp_all add: number_def)
  have "CHR '' '' \<notin> set (take k s)"
    using d isDigit_not_space unfolding list_all_iff by blast
  moreover have "s = take k s @ r"
    by (simp add: r)
  ultimately show ?thesis
    unfolding consumes_def by blast
qed

lemma literal_consumes: "c \<noteq> CHR '' '' \<Longrightarrow> literal c s = Some r \<Longrightarrow> consumes s r"
  by (cases s) (auto simp: literal_def consumes_def split: if_splits intro: exI [of _ "[c]"])

lemma takeWhile_isDigit_no_space: "CHR '' '' \<notin> set (takeWhile isDigit s)"
  using isDigit_not_space by (blast dest: set_takeWhileD)

lemma fraction_consumes: "fraction s = Some (n, r) \<Longrightarrow> consumes s r"
proof (cases s)
  case Nil
  then show "fraction s = Some (n, r) \<Longrightarrow> consumes s r"
    by (auto simp: fraction_def consumes_def)
next
  case (Cons x s1)
  assume a: "fraction s = Some (n, r)"
  show ?thesis
  proof (cases s1)
    case Nil
    with Cons a show ?thesis by (auto simp: fraction_def consumes_def)
  next
    case (Cons d s2)
    show ?thesis
    proof (cases "x = CHR ''.'' \<and> isDigit d")
      case False
      with a \<open>s = x # s1\<close> Cons have "r = s" by (auto simp: fraction_def)
      then show ?thesis by (auto simp: consumes_def)
    next
      case True
      with a \<open>s = x # s1\<close> Cons have r: "r = dropWhile isDigit (d # s2)"
        by (auto simp: fraction_def Let_def split: if_splits)
      have "s = (CHR ''.'' # takeWhile isDigit (d # s2)) @ r"
        using True \<open>s = x # s1\<close> Cons r by simp
      moreover have "CHR '' '' \<notin> set (CHR ''.'' # takeWhile isDigit (d # s2))"
        using takeWhile_isDigit_no_space [of "d # s2"] by simp
      ultimately show ?thesis
        unfolding consumes_def by blast
    qed
  qed
qed

lemma zone_consumes: "zone s = Some (off, r) \<Longrightarrow> consumes s r"
proof (cases s)
  case Nil
  then show "zone s = Some (off, r) \<Longrightarrow> consumes s r" by (simp add: zone_def)
next
  case (Cons x s1)
  assume a: "zone s = Some (off, r)"
  show ?thesis
  proof (cases "x = CHR ''Z''")
    case True
    with a Cons have "r = s1" by (simp add: zone_def)
    with True Cons show ?thesis
      by (auto simp: consumes_def intro: exI [of _ "[CHR ''Z'']"])
  next
    case False
    with a Cons have sign: "x = CHR ''+'' \<or> x = CHR ''-''"
      by (auto simp: zone_def split: if_splits)
    with a Cons False obtain hh r1 r2 mm where
      "number 2 s1 = Some (hh, r1)" "literal CHR '':'' r1 = Some r2" "number 2 r2 = Some (mm, r)"
      by (auto simp: zone_def bind_eq_Some_conv split: if_splits)
    then have "consumes s1 r1" "consumes r1 r2" "consumes r2 r"
      by (auto intro: number_consumes literal_consumes)
    then have "consumes s1 r"
      by (blast intro: consumes_trans)
    moreover have "consumes s s1"
      using sign Cons by (auto simp: consumes_def intro: exI [of _ "[x]"])
    ultimately show ?thesis
      by (blast intro: consumes_trans)
  qed
qed

lemma bind_SomeE:
  assumes "Option.bind x f = Some y"
  obtains v where "x = Some v" and "f v = Some y"
  using assms by (cases x) auto

lemma case_InrD: "(case x of None \<Rightarrow> Inl e | Some v \<Rightarrow> Inr v) = Inr t \<Longrightarrow> x = Some t"
  by (cases x) simp_all

lemma parseLayout_consumes: "parseLayout s = Inr t \<Longrightarrow> consumes s []"
  unfolding parseLayout_def
  apply (drule case_InrD)
  apply (erule bind_SomeE, clarsimp?)+
  apply (simp split: if_splits)
  apply (rule consumes_trans,
         (erule number_consumes | erule fraction_consumes |
          (erule literal_consumes [rotated], simp)))+
  apply (erule zone_consumes)
  done

lemma parseLayout_no_space: "parseLayout s = Inr t \<Longrightarrow> CHR '' '' \<notin> set s"
  by (rule consumes_Nil) (rule parseLayout_consumes)

lemma extractTs_parseLayout:
  "parseLayout tok = Inr ts \<Longrightarrow>
     extractTs parseLayout now (tok @ CHR '' '' # body) = (ts, body, None)"
  using parseLayout_no_space [of tok ts] by (simp add: extractTs_space)

section \<open>The claims\<close>

text \<open>
  C1. The claim: \<open>running\<close> is true only between a successful acquisition of the log
  stream and cancellation; when the request for the stream fails, the error is recorded,
  \<open>running\<close> is left false (\<^verbatim>\<open>Ready()\<close> returns false) and the loop stops without
  retrying.

  The code stores \<^verbatim>\<open>true\<close> in \<open>running\<close> (line 89) before it asks for the stream, and
  its return on a failed request (lines 100 to 104) does not store \<^verbatim>\<open>false\<close>, as the path
  through line 133 does. For every target and every error \<open>e\<close> of a failing
  \<^verbatim>\<open>ContainerLogs\<close>: after \<^verbatim>\<open>processLoop\<close> the error is recorded, the counter is back where
  it was, the loop has returned, no stream is held and nothing else was started, and
  \<^verbatim>\<open>Ready()\<close> is true.
\<close>

theorem processLoop_request_failed:
  "Ready (processLoop (env\<lparr>ContainerLogs := (\<lambda>ctxDone name opts. Inl e)\<rparr>) t) \<and>
   err (processLoop (env\<lparr>ContainerLogs := (\<lambda>ctxDone name opts. Inl e)\<rparr>) t) = Some e \<and>
   wg (processLoop (env\<lparr>ContainerLogs := (\<lambda>ctxDone name opts. Inl e)\<rparr>) t) = wg t \<and>
   goroutines (processLoop (env\<lparr>ContainerLogs := (\<lambda>ctxDone name opts. Inl e)\<rparr>) t) =
     AList.update ''processLoop'' Exited (goroutines t) \<and>
   stream (processLoop (env\<lparr>ContainerLogs := (\<lambda>ctxDone name opts. Inl e)\<rparr>) t) = stream t"
  by (simp add: processLoop_def Ready_def Let_def)

text \<open>
  C2. The claim: after \<^verbatim>\<open>Stop()\<close> returns, \<^verbatim>\<open>Ready()\<close> is false and every worker has
  exited (the counter is zero), whatever the target's state was before.

  For a target made by \<^verbatim>\<open>NewTarget\<close> over an empty position store whose request for the
  stream failed with \<open>e\<close>: the target is not ready when it is made, \<^verbatim>\<open>Stop()\<close> returns, the
  counter is zero and the only goroutine has returned, and \<^verbatim>\<open>Ready()\<close> is still true.
  \<^verbatim>\<open>Stop\<close> never writes \<open>running\<close>; only line 133 of \<^verbatim>\<open>processLoop\<close> clears it, and the
  failed request returns before it.
\<close>

theorem Stop_after_failed_request:
  "(case NewTarget (env\<lparr>ContainerLogs := (\<lambda>ctxDone name opts. Inl e)\<rparr>) m h Map.empty c l r of
      Inl e' \<Rightarrow> False
    | Inr t \<Rightarrow>
        \<not> Ready t \<and>
        (case Stop (env\<lparr>ContainerLogs := (\<lambda>ctxDone name opts. Inl e)\<rparr>)
                (processLoop (env\<lparr>ContainerLogs := (\<lambda>ctxDone name opts. Inl e)\<rparr>) t) of
           None \<Rightarrow> False
         | Some t' \<Rightarrow>
             Ready t' \<and> wg t' = 0 \<and> err t' = Some e \<and>
             goroutines t' = [(''processLoop'', Exited)]))"
  by (simp add: NewTarget_def Get_def processLoop_def Stop_def teardown_def Ready_def Let_def)

text \<open>
  C3. The claim: \<^verbatim>\<open>Details()\<close> returns its snapshot in every state of the target, also
  when no error has occurred.

  \<^verbatim>\<open>Details\<close> calls \<^verbatim>\<open>t.err.Error()\<close> without a \<^verbatim>\<open>nil\<close> check (line 227). For every
  target whose \<open>err\<close> is \<^verbatim>\<open>nil\<close>, and so for a target fresh from \<^verbatim>\<open>NewTarget\<close>, the call
  panics with a nil pointer dereference and returns no snapshot.
\<close>

theorem Details_without_error:
  "Details env (t\<lparr>err := None\<rparr>) = Inl NilPointerDereference \<and>
   (case NewTarget env m h Map.empty c l r of
      Inl e \<Rightarrow> False
    | Inr t0 \<Rightarrow> err t0 = None \<and> Details env t0 = Inl NilPointerDereference)"
  by (simp add: NewTarget_def Get_def Details_def Let_def)

text \<open>
  C4. For every line of the form \<open>tok\<close>, one space, \<open>body\<close>, where \<open>tok\<close> is the leading
  token (it holds no space) and the parser of the fixed layout accepts it with the
  timestamp \<open>ts\<close>, \<^verbatim>\<open>extractTs\<close> returns \<open>ts\<close>, the remainder \<open>body\<close> and no error. This
  holds for every parser and every clock reading. A text the layout parser accepts holds
  no space (\<open>parseLayout_no_space\<close>), so for that parser the first condition is met by
  itself (\<open>extractTs_parseLayout\<close>).
\<close>

theorem extractTs_wellformed_line:
  assumes "CHR '' '' \<notin> set tok" and "parse tok = Inr ts"
  shows "extractTs parse now (tok @ CHR '' '' # body) = (ts, body, None)"
  using assms by (simp add: extractTs_space)

text \<open>The concrete case: the line \<^verbatim>\<open>2023-01-01T00:00:00.000000000Z hello\<close> yields the
  instant 1672531200 seconds after the epoch, that is 2023-01-01T00:00:00Z, in UTC, and
  the body \<^verbatim>\<open>hello\<close>.\<close>

theorem extractTs_wellformed_line_witness:
  "CHR '' '' \<notin> set ''2023-01-01T00:00:00.000000000Z'' \<and>
   parseLayout ''2023-01-01T00:00:00.000000000Z'' =
     Inr \<lparr>unixSec = 1672531200, nsec = 0, zoneOffset = 0\<rparr> \<and>
   extractTs parseLayout epoch ''2023-01-01T00:00:00.000000000Z hello'' =
     (\<lparr>unixSec = 1672531200, nsec = 0, zoneOffset = 0\<rparr>, ''hello'', None)"
proof -
  have tok: "CHR '' '' \<notin> set ''2023-01-01T00:00:00.000000000Z''"
    by simp
  have ts: "parseLayout ''2023-01-01T00:00:00.000000000Z'' =
              Inr \<lparr>unixSec = 1672531200, nsec = 0, zoneOffset = 0\<rparr>"
    by (simp add: parse_defs)
  from extractTs_wellformed_line
         [where tok = "''2023-01-01T00:00:00.000000000Z''" and parse = parseLayout
            and now = epoch and body = "''hello''", OF tok ts] tok ts
  show ?thesis by simp
qed






text \<open>
  C7. For every relabel engine and rule chain, every static label set and every
  sequence of lines, the entries a processor sends are appended to those already sent,
  and no label of a new entry has a name that begins with \<^verbatim>\<open>__\<close>.
\<close>

theorem forwarded_labels_not_reserved:
  "\<exists>new. handler (process env r logStream t) = handler t @ new \<and>
         (\<forall>e\<in>set new. \<forall>l\<in>set (Labels e). \<not> HasPrefix (fst l) ''__'')"
proof (intro exI conjI ballI)
  show "handler (process env r logStream t) =
          handler t @ concat (map (line_entries env t logStream) r)"
    by (simp add: process_def Let_def process_scan_handler)
next
  fix e l
  assume "e \<in> set (concat (map (line_entries env t logStream) r))"
  then obtain line where "e \<in> set (line_entries env t logStream line)"
    by auto
  then have "Labels e = process_filtered
                  (relabel_Process env (process_labels env t logStream) (relabelConfig t))"
    by (rule line_entries_labels)
  moreover assume "l \<in> set (Labels e)"
  ultimately show "\<not> HasPrefix (fst l) ''__''"
    using process_filtered_names by simp
qed

text \<open>A static label \<^verbatim>\<open>__address__\<close>, the stream label \<^verbatim>\<open>__meta_docker_log_stream\<close> and a
  label \<^verbatim>\<open>__tmp_keep\<close> that relabeling adds are all dropped; \<^verbatim>\<open>job\<close> and \<^verbatim>\<open>container\<close>
  are kept.\<close>

theorem forwarded_labels_not_reserved_witness:
  "handler (process
      (exampleEnv\<lparr>relabel_Process :=
         (\<lambda>lbls cfgs. lbls @ [(''__tmp_keep'', ''1''), (''container'', ''flog'')])\<rparr>)
      [''2023-01-01T00:00:00.000000000Z hello''] ''stdout'' exampleTarget) =
     [\<lparr>Labels = [(''job'', ''docker''), (''container'', ''flog'')],
       Timestamp = \<lparr>unixSec = 1672531200, nsec = 0, zoneOffset = 0\<rparr>,
       Line = ''hello''\<rparr>]"
  using forwarded_labels_not_reserved
          [of "exampleEnv\<lparr>relabel_Process :=
                 (\<lambda>lbls cfgs. lbls @ [(''__tmp_keep'', ''1''), (''container'', ''flog'')])\<rparr>"
              "[''2023-01-01T00:00:00.000000000Z hello'']" "''stdout''" exampleTarget]
  by (simp add: eval_defs exampleEnv_def exampleTarget_def parse_defs)



text \<open>
  C9. \<^verbatim>\<open>NewTarget\<close> returns an error exactly when the lookup of the container's key in
  the position store fails, and then it returns that error and no target. Otherwise it
  returns a target whose \<open>since\<close> is the stored cursor when that is not zero and zero
  when it is, with \<^verbatim>\<open>processLoop\<close> started as a goroutine that has not run yet, not ready,
  with no error, not cancelled, and with the arguments as its fields.
\<close>

theorem NewTarget_result:
  "isl (NewTarget env m h p c l r) = isl (Get p (CursorKey env c)) \<and>
   (\<forall>e. Get p (CursorKey env c) = Inl e \<longrightarrow> NewTarget env m h p c l r = Inl e) \<and>
   (\<forall>pos. Get p (CursorKey env c) = Inr pos \<longrightarrow>
      (\<exists>t. NewTarget env m h p c l r = Inr t \<and>
           (pos \<noteq> 0 \<longrightarrow> since t = pos) \<and> (pos = 0 \<longrightarrow> since t = 0) \<and>
           \<not> Ready t \<and> err t = None \<and> wg t = 0 \<and> \<not> cancelled t \<and>
           goroutines t = [(''processLoop'', Spawned)] \<and>
           handler t = h \<and> positions t = p \<and> containerName t = c \<and> labels t = l \<and>
           relabelConfig t = r \<and> metrics t = m))"
  by (cases "Get p (CursorKey env c)") (simp_all add: NewTarget_def Ready_def)

text \<open>An entry that cannot be read, a stored cursor, and an empty store.\<close>

theorem NewTarget_result_witness:
  "NewTarget exampleEnv \<lparr>dockerEntries = 0, dockerErrors = 0\<rparr> []
     (Map.empty(''cursor-flog'' \<mapsto> Unreadable ''not a number'')) ''flog'' [] [] =
     Inl (External ''not a number'') \<and>
   (case NewTarget exampleEnv \<lparr>dockerEntries = 0, dockerErrors = 0\<rparr> []
           (Map.empty(''cursor-flog'' \<mapsto> Cursor 1672531200)) ''flog'' [] [] of
      Inl e \<Rightarrow> False
    | Inr t \<Rightarrow> since t = 1672531200 \<and> \<not> Ready t \<and> err t = None \<and>
               goroutines t = [(''processLoop'', Spawned)]) \<and>
   (case NewTarget exampleEnv \<lparr>dockerEntries = 0, dockerErrors = 0\<rparr> [] Map.empty ''flog'' [] [] of
      Inl e \<Rightarrow> False
    | Inr t \<Rightarrow> since t = 0 \<and> \<not> Ready t \<and> err t = None \<and>
               goroutines t = [(''processLoop'', Spawned)])"
  using NewTarget_result
          [of exampleEnv "\<lparr>dockerEntries = 0, dockerErrors = 0\<rparr>" "[]"
              "Map.empty(''cursor-flog'' \<mapsto> Unreadable ''not a number'')" "''flog''" "[]" "[]"]
        NewTarget_result
          [of exampleEnv "\<lparr>dockerEntries = 0, dockerErrors = 0\<rparr>" "[]"
              "Map.empty(''cursor-flog'' \<mapsto> Cursor 1672531200)" "''flog''" "[]" "[]"]
        NewTarget_result
          [of exampleEnv "\<lparr>dockerEntries = 0, dockerErrors = 0\<rparr>" "[]"
              "Map.empty" "''flog''" "[]" "[]"]
  by (simp add: NewTarget_def Get_def Ready_def exampleEnv_def)

text \<open>
  C10. For a processor with a non-empty stream name (\<^verbatim>\<open>stdout\<close> and \<^verbatim>\<open>stderr\<close> are the two
  the target starts), the labels handed to the relabel engine hold the log-stream label
  with the stream name as its value and with no other value, whatever the static labels
  are, so a static label of the same name is overwritten; and these labels are the ones
  the engine is applied to for every line that yields an entry.
\<close>

theorem stream_label_wins:
  assumes "logStream \<noteq> []"
  shows "(dockerLabelLogStream env, logStream) \<in> set (process_labels env t logStream) \<and>
         (\<forall>v. (dockerLabelLogStream env, v) \<in> set (process_labels env t logStream) \<longrightarrow>
              v = logStream) \<and>
         (\<forall>line ts body.
            extractTs (time_Parse env) (time_Now env) line = (ts, body, None) \<longrightarrow>
            handler (process_line env logStream line t) =
              handler t @
              [\<lparr>Labels = process_filtered
                           (relabel_Process env (process_labels env t logStream) (relabelConfig t)),
                Timestamp = ts, Line = body\<rparr>])"
proof (intro conjI allI impI)
  show mem: "(dockerLabelLogStream env, logStream) \<in> set (process_labels env t logStream)"
    using assms by (rule process_labels_member)
  show "v = logStream" if "(dockerLabelLogStream env, v) \<in> set (process_labels env t logStream)" for v
    using eq_key_imp_eq_value [OF process_labels_distinct that mem] .
  show "handler (process_line env logStream line t) =
              handler t @
              [\<lparr>Labels = process_filtered
                           (relabel_Process env (process_labels env t logStream) (relabelConfig t)),
                Timestamp = ts, Line = body\<rparr>]"
    if "extractTs (time_Parse env) (time_Now env) line = (ts, body, None)" for line ts body
    by (simp add: process_line_entry [OF that])
qed

text \<open>The static labels give the log-stream label the value \<^verbatim>\<open>static\<close>; the stderr
  processor hands on \<^verbatim>\<open>stderr\<close>.\<close>

theorem stream_label_wins_witness:
  "''stderr'' \<noteq> [] \<and>
   process_labels exampleEnv
     (exampleTarget\<lparr>labels := [(''__meta_docker_log_stream'', ''static''), (''job'', ''docker'')]\<rparr>)
     ''stderr'' =
     [(''__meta_docker_log_stream'', ''stderr''), (''job'', ''docker'')]"
  using stream_label_wins
          [of "''stderr''" exampleEnv
              "exampleTarget\<lparr>labels := [(''__meta_docker_log_stream'', ''static''),
                                         (''job'', ''docker'')]\<rparr>"]
  by (simp add: eval_defs exampleEnv_def exampleTarget_def)

end
